theory Spec2Isabelle
  imports Main "HOL-Library.AList" "HOL-Library.Multiset"
begin

section \<open>Errors with causes\<close>

text \<open>
  The gateway wraps every error with the errgo library and classifies errors by their
  cause. An error value is one of: a \<open>params.ErrorCode\<close> used as an error, a
  \<open>*jujuparams.Error\<close> or \<open>*rpc.RequestError\<close> carrying a wire code and a message, the
  dispatcher's \<open>*rpcreflect.CallNotImplementedError\<close>, any other plain error, or an
  \<open>*errgo.Err\<close> holding its underlying error, its cause (both may be nil) and a message.
  A nil error is \<open>None\<close>.
\<close>

datatype err =
    CodeErr string
  | ParamsError string string
  | RequestError string string
  | CallNotImplementedError string int
  | PlainErr string
  | Err "err option" "err option" string

text \<open>
  Modelled from the spec: package \<open>params\<close>, which declares the gateway's error codes,
  is not among the sources. The codes are the error kinds the spec lists; each is a
  string constant, and only their being distinct matters below. The \<open>Code...\<close> strings
  are the wire codes of the controllers' own API.
\<close>

abbreviation ErrNotFound :: err where "ErrNotFound \<equiv> CodeErr ''not found''"
abbreviation ErrUnauthorized :: err where "ErrUnauthorized \<equiv> CodeErr ''unauthorized''"
abbreviation ErrAmbiguousChoice :: err where "ErrAmbiguousChoice \<equiv> CodeErr ''ambiguous choice''"
abbreviation ErrAlreadyExists :: err where "ErrAlreadyExists \<equiv> CodeErr ''already exists''"
abbreviation errInvalidModelParams :: err where
  "errInvalidModelParams \<equiv> CodeErr ''invalid CreateModel request''"

abbreviation CodeNotSupported :: string where "CodeNotSupported \<equiv> ''not supported''"
abbreviation CodeAlreadyExists :: string where "CodeAlreadyExists \<equiv> ''already exists''"
abbreviation CodeUpgradeInProgress :: string where "CodeUpgradeInProgress \<equiv> ''upgrade in progress''"
abbreviation CodeHasPersistentStorage :: string where
  "CodeHasPersistentStorage \<equiv> ''model/controller has persistent storage''"

text \<open>\<open>errgo.Cause\<close>: the recorded cause of an \<open>*errgo.Err\<close> when it has one, else the error itself.\<close>

fun Cause :: "err \<Rightarrow> err" where
  "Cause (Err u (Some c) m) = c"
| "Cause e = e"

text \<open>\<open>errgo.Is\<close> and \<open>errgo.Any\<close>, the predicates that let a cause through a mask.\<close>

definition Is :: "err \<Rightarrow> err \<Rightarrow> bool" where
  "Is x e = (e = x)"


text \<open>
  \<open>errgo.NoteMask\<close>: a new \<open>*errgo.Err\<close> around the underlying error; the cause of the
  underlying error is kept only when one of the pass predicates accepts it.
\<close>

definition NoteMask :: "err option \<Rightarrow> string \<Rightarrow> (err \<Rightarrow> bool) list \<Rightarrow> err" where
  "NoteMask underlying msg pass =
     Err underlying
       (case underlying of
          None \<Rightarrow> None
        | Some u \<Rightarrow> if list_ex (\<lambda>f. f (Cause u)) pass then Some (Cause u) else None)
       msg"

text \<open>\<open>errgo.Mask\<close> returns nil for a nil error; \<open>errgo.Notef\<close> and \<open>errgo.New\<close> never do.\<close>

definition Mask :: "err option \<Rightarrow> (err \<Rightarrow> bool) list \<Rightarrow> err option" where
  "Mask underlying pass =
     (case underlying of None \<Rightarrow> None | Some u \<Rightarrow> Some (NoteMask (Some u) [] pass))"

definition Notef :: "err option \<Rightarrow> string \<Rightarrow> err" where
  "Notef underlying msg = NoteMask underlying msg []"

definition Newf :: "string \<Rightarrow> err" where
  "Newf msg = Err None None msg"

definition WithCausef :: "err option \<Rightarrow> err \<Rightarrow> string \<Rightarrow> err" where
  "WithCausef underlying cause msg = Err underlying (Some cause) msg"

text \<open>
  \<open>jujuparams.ErrCode\<close>: the wire code of the error's cause when the cause carries one,
  else the empty string.
\<close>

fun ErrCode :: "err \<Rightarrow> string" where
  "ErrCode e =
     (case Cause e of
        ParamsError code msg \<Rightarrow> code
      | RequestError code msg \<Rightarrow> code
      | _ \<Rightarrow> [])"

definition IsCodeHasPersistentStorage :: "err \<Rightarrow> bool" where
  "IsCodeHasPersistentStorage e = (ErrCode e = CodeHasPersistentStorage)"

text \<open>
  Modelled from the spec: the authorization checks of package \<open>auth\<close> (\<open>CheckIsUser\<close>,
  \<open>CheckCanRead\<close>) are not among the sources. The spec says a check "returns nil if
  permitted or an Unauthorized cause"; the verdict itself is an input.
\<close>

definition auth_check :: "bool \<Rightarrow> err option" where
  "auth_check permitted = (if permitted then None else Some ErrUnauthorized)"

section \<open>Paths and documents\<close>

record EntityPath =
  ep_User :: string
  ep_Name :: string

record CredentialPath =
  cp_Cloud :: string
  cp_User :: string
  cp_Name :: string

definition EntityPath_String :: "EntityPath \<Rightarrow> string" where
  "EntityPath_String p = ep_User p @ ''/'' @ ep_Name p"

definition CredentialPath_String :: "CredentialPath \<Rightarrow> string" where
  "CredentialPath_String p = cp_Cloud p @ ''/'' @ cp_User p @ ''/'' @ cp_Name p"

text \<open>
  Modelled from the spec: the path types of package \<open>params\<close> are not among the
  sources. A credential path is zero (the spec's "empty input") when all its parts are
  empty.
\<close>

definition CredentialPath_IsZero :: "CredentialPath \<Rightarrow> bool" where
  "CredentialPath_IsZero p = (cp_Cloud p = [] \<and> cp_User p = [] \<and> cp_Name p = [])"

record Credential =
  cred_Path :: CredentialPath
  cred_Type :: string
  cred_Attributes :: "(string \<times> string) list"
  cred_Revoked :: bool
  cred_Controllers :: "EntityPath list"

record CloudRegion =
  cr_Cloud :: string
  cr_Region :: string
  PrimaryControllers :: "EntityPath list"
  SecondaryControllers :: "EntityPath list"

section \<open>jimmdb.Update\<close>

text \<open>
  An update holds two \<open>bson.D\<close> documents (ordered lists of name/value elements) and one
  \<open>bson.M\<close> map. A Go map is nil until made; it holds one value per key, so it is an
  association list with distinct keys and its \<open>len\<close> is the length of that list.
\<close>

record 'v Update =
  upd_AddToSet :: "(string \<times> 'v) list"
  upd_Pull :: "(string \<times> 'v) list"
  upd_Set :: "(string \<times> 'v) list option"

definition new_Update :: "'v Update" where
  "new_Update = \<lparr>upd_AddToSet = [], upd_Pull = [], upd_Set = None\<rparr>"

definition len_M :: "(string \<times> 'v) list option \<Rightarrow> nat" where
  "len_M m = (case m of None \<Rightarrow> 0 | Some al \<Rightarrow> length al)"

definition Update_IsZero :: "'v Update \<Rightarrow> bool" where
  "Update_IsZero u = (length (upd_AddToSet u) = 0 \<and> length (upd_Pull u) = 0 \<and> len_M (upd_Set u) = 0)"

definition Update_AddToSet :: "string \<Rightarrow> 'v \<Rightarrow> 'v Update \<Rightarrow> 'v Update" where
  "Update_AddToSet field v u = u\<lparr>upd_AddToSet := upd_AddToSet u @ [(field, v)]\<rparr>"

definition Update_Pull :: "string \<Rightarrow> 'v \<Rightarrow> 'v Update \<Rightarrow> 'v Update" where
  "Update_Pull field v u = u\<lparr>upd_Pull := upd_Pull u @ [(field, v)]\<rparr>"

definition Update_Set :: "string \<Rightarrow> 'v \<Rightarrow> 'v Update \<Rightarrow> 'v Update" where
  "Update_Set field v u =
     (let m = (case upd_Set u of None \<Rightarrow> [] | Some al \<Rightarrow> al)
      in u\<lparr>upd_Set := Some (AList.update field v m)\<rparr>)"

text \<open>The operations a caller can record on an update, and a chain of such calls.\<close>

datatype 'v update_op = OpAddToSet string 'v | OpPull string 'v | OpSet string 'v

fun record_op :: "'v update_op \<Rightarrow> 'v Update \<Rightarrow> 'v Update" where
  "record_op (OpAddToSet f v) u = Update_AddToSet f v u"
| "record_op (OpPull f v) u = Update_Pull f v u"
| "record_op (OpSet f v) u = Update_Set f v u"

fun record_ops :: "'v update_op list \<Rightarrow> 'v Update \<Rightarrow> 'v Update" where
  "record_ops [] u = u"
| "record_ops (x # xs) u = record_ops xs (record_op x u)"

section \<open>Versioned dispatch: controllerRoot.FindMethod\<close>

text \<open>
  The two facade tables of the source. A Go map read of a missing key yields the empty
  string, which is how \<open>FindMethod\<close> notices an unlisted facade.
\<close>

type_synonym facade = "string \<times> int"

definition unauthenticatedFacades :: "(facade \<times> string) list" where
  "unauthenticatedFacades = [((''Admin'', 3), ''Admin''), ((''Pinger'', 1), ''Pinger'')]"

definition facades :: "(facade \<times> string) list" where
  "facades =
    [((''Bundle'', 1), ''Bundle''),
     ((''Cloud'', 1), ''CloudV1''),
     ((''Cloud'', 2), ''CloudV2''),
     ((''Cloud'', 3), ''CloudV3''),
     ((''Cloud'', 4), ''CloudV4''),
     ((''Cloud'', 5), ''CloudV5''),
     ((''Controller'', 3), ''ControllerV3''),
     ((''Controller'', 4), ''ControllerV4''),
     ((''Controller'', 5), ''ControllerV5''),
     ((''Controller'', 6), ''ControllerV6''),
     ((''Controller'', 7), ''ControllerV7''),
     ((''Controller'', 8), ''ControllerV8''),
     ((''Controller'', 9), ''ControllerV9''),
     ((''JIMM'', 1), ''JIMMV2''),
     ((''JIMM'', 2), ''JIMMV2''),
     ((''ModelManager'', 2), ''ModelManagerV2''),
     ((''ModelManager'', 3), ''ModelManagerV3''),
     ((''ModelManager'', 4), ''ModelManagerAPI''),
     ((''ModelManager'', 5), ''ModelManagerAPI''),
     ((''Pinger'', 1), ''Pinger''),
     ((''UserManager'', 1), ''UserManager''),
     ((''ModelSummaryWatcher'', 1), ''ModelSummaryWatcher'')]"

definition facade_lookup :: "(facade \<times> string) list \<Rightarrow> facade \<Rightarrow> string" where
  "facade_lookup tbl k = (case map_of tbl k of None \<Rightarrow> [] | Some rn \<Rightarrow> rn)"

text \<open>
  The part of the connection root that dispatch reads and writes: the current facade
  table, the number of heartbeats given to the heart monitor, and the calls handed on to
  the reflection-based finder \<open>r.findMethod\<close> (root method name, version, method name).
\<close>

record controllerRoot =
  root_facades :: "(facade \<times> string) list"
  heartbeats :: nat
  found :: "(string \<times> int \<times> string) list"

definition newControllerRoot :: controllerRoot where
  "newControllerRoot = \<lparr>root_facades = unauthenticatedFacades, heartbeats = 0, found = []\<rparr>"

definition FindMethod ::
  "(string \<Rightarrow> int \<Rightarrow> string \<Rightarrow> err + 'c) \<Rightarrow> controllerRoot \<Rightarrow> string \<Rightarrow> int \<Rightarrow> string
     \<Rightarrow> (err + 'c) \<times> controllerRoot" where
  "FindMethod findMethod r rootName version methodName =
     (let r1 = r\<lparr>heartbeats := Suc (heartbeats r)\<rparr>
      in if rootName = ''Admin'' \<and> version < 3
         then (Inl (RequestError CodeNotSupported ''JIMM does not support login from old clients''), r1)
         else
           (let rn = facade_lookup (root_facades r1) (rootName, version)
            in if rn = []
               then (Inl (CallNotImplementedError rootName version), r1)
               else (findMethod rn 0 methodName,
                     r1\<lparr>found := found r1 @ [(rn, 0, methodName)]\<rparr>)))"

section \<open>JEM.Credential\<close>

text \<open>
  \<open>lookup\<close> is the answer of the store to \<open>DB.Credential(path)\<close>; \<open>is_user\<close> and
  \<open>can_read\<close> are the verdicts of the identity checks.
\<close>

definition JEM_Credential ::
  "(CredentialPath \<Rightarrow> err + Credential) \<Rightarrow> (string \<Rightarrow> bool) \<Rightarrow> (Credential \<Rightarrow> bool)
     \<Rightarrow> CredentialPath \<Rightarrow> err + Credential" where
  "JEM_Credential lookup is_user can_read path =
     (case lookup path of
        Inl err \<Rightarrow>
          (let err1 =
             (if Cause err = ErrNotFound
              then (case auth_check (is_user (cp_User path)) of
                      Some aerr \<Rightarrow> aerr
                    | None \<Rightarrow> err)
              else err)
           in Inl (NoteMask (Some err1) [] [Is ErrNotFound, Is ErrUnauthorized]))
      | Inr cred \<Rightarrow>
          (case auth_check (can_read cred) of
             Some e \<Rightarrow> Inl (NoteMask (Some e) [] [Is ErrUnauthorized])
           | None \<Rightarrow> Inr cred))"

section \<open>JEM.selectCredential\<close>

text \<open>
  The two queries \<open>selectCredential\<close> can send, and the drained iterator: the documents
  that \<open>NewCanReadIter\<close> yielded (those matching the query that the caller may read) and
  the value of \<open>iter.Err()\<close>.
\<close>

datatype cred_query = ByPath CredentialPath | ByUserCloud string string

definition selectCredential ::
  "(cred_query \<Rightarrow> Credential list \<times> err option) \<Rightarrow> CredentialPath \<Rightarrow> string \<Rightarrow> string
     \<Rightarrow> err + Credential option" where
  "selectCredential run_query path user cloud =
     (let query = (if CredentialPath_IsZero path then ByUserCloud user cloud else ByPath path);
          (creds, iter_err) = run_query query
      in case iter_err of
           Some e \<Rightarrow> Inl (Notef (Some e) ''cannot query credentials'')
         | None \<Rightarrow>
             (case creds of
                [] \<Rightarrow>
                  (if \<not> CredentialPath_IsZero path
                   then Inl (WithCausef None ErrNotFound
                               (''credential '' @ CredentialPath_String path @ '' not found''))
                   else Inr None)
              | [c] \<Rightarrow> Inr (Some c)
              | _ \<Rightarrow> Inl (WithCausef None ErrAmbiguousChoice
                            ''more than one possible credential to use'')))"

section \<open>JEM.possibleControllers\<close>

text \<open>
  \<open>shuffle\<close> is \<open>rand.Shuffle\<close>: for \<open>i\<close> from \<open>n - 1\<close> down to \<open>1\<close> it draws \<open>j\<close> in
  \<open>[0, i]\<close> and calls the swap function on \<open>(i, j)\<close>. The draws come from \<open>rnd\<close>.
\<close>

definition swap_at :: "nat \<Rightarrow> nat \<Rightarrow> 'a list \<Rightarrow> 'a list" where
  "swap_at i j xs = xs[i := xs ! j, j := xs ! i]"

fun shuffle_loop :: "(nat \<Rightarrow> nat) \<Rightarrow> nat \<Rightarrow> 'a list \<Rightarrow> 'a list" where
  "shuffle_loop rnd 0 xs = xs"
| "shuffle_loop rnd (Suc k) xs =
     shuffle_loop rnd k (swap_at (Suc k) (rnd (Suc k) mod Suc (Suc k)) xs)"

definition shuffle :: "(nat \<Rightarrow> nat) \<Rightarrow> 'a list \<Rightarrow> 'a list" where
  "shuffle rnd xs = shuffle_loop rnd (length xs - 1) xs"

definition possibleControllers ::
  "(string \<Rightarrow> string \<Rightarrow> err + CloudRegion) \<Rightarrow> (CloudRegion \<Rightarrow> bool) \<Rightarrow> (nat \<Rightarrow> nat)
     \<Rightarrow> EntityPath \<Rightarrow> string \<Rightarrow> string \<Rightarrow> err + EntityPath list" where
  "possibleControllers db_CloudRegion can_read rnd ctlPath cloud region =
     (if ep_Name ctlPath \<noteq> [] then Inr [ctlPath]
      else
        (case db_CloudRegion cloud region of
           Inl err \<Rightarrow> Inl (NoteMask (Some err) [] [Is ErrNotFound])
         | Inr cloudRegion \<Rightarrow>
             (case auth_check (can_read cloudRegion) of
                Some err \<Rightarrow> Inl (NoteMask (Some err) [] [Is ErrUnauthorized])
              | None \<Rightarrow>
                  (let controllers =
                     (if length (PrimaryControllers cloudRegion) = 0
                      then SecondaryControllers cloudRegion
                      else PrimaryControllers cloudRegion)
                   in Inr (shuffle rnd controllers)))))"

section \<open>The index store\<close>

text \<open>
  A model row as the lifecycle engine reads and writes it. \<open>m_Info\<close> is nil until the
  controller has reported on the model; \<open>Model.Life()\<close> is the life in it, or the empty
  string.
\<close>

record ModelInfo =
  mi_Life :: string
  mi_Status :: string
  mi_Message :: string
  mi_Since :: "int option"
  mi_AgentVersion :: "string option"

record Model =
  m_Id :: string
  m_Path :: EntityPath
  m_Controller :: EntityPath
  m_UUID :: string
  m_CreationTime :: int
  m_Creator :: string
  m_UsageSenderCredentials :: "nat list"
  m_Credential :: CredentialPath
  m_Cloud :: string
  m_CloudRegion :: string
  m_DefaultSeries :: string
  m_Type :: string
  m_ProviderType :: string
  m_Info :: "ModelInfo option"

definition Model_Life :: "Model \<Rightarrow> string" where
  "Model_Life m = (case m_Info m of None \<Rightarrow> [] | Some i \<Rightarrow> mi_Life i)"

datatype audit_entry =
    AuditModelCreated string string string string string string string int
  | AuditModelDestroyed string string int

text \<open>
  The store holds the model rows and the audit log. \<open>journal\<close> is a ghost field: every
  write the engine sends to the store is noted there, whether the store carries it out or
  fails.
\<close>

datatype db_call =
    CallAddModel Model
  | CallDeleteModel EntityPath
  | CallDeleteModelWithUUID EntityPath string
  | CallSetModelLife EntityPath string string
  | CallUpdateModel string
  | CallUpdateLegacyModel Model
  | CallAppendAudit audit_entry

record db =
  models :: "Model list"
  audit_log :: "audit_entry list"
  journal :: "db_call list"

text \<open>
  Modelled from the spec: the store adapter (type \<open>Database\<close>) is not among the sources.
  Each operation takes \<open>fault\<close>, the error of the backend when it fails at this call; a
  failed operation changes nothing. \<open>AddModel\<close> reports AlreadyExists when the path
  collides and fills in the row's id (the path as a string); the deletes remove the rows
  with the given path, or with the given controller and UUID; \<open>SetModelLife\<close> sets the
  life of the rows with the given controller and UUID; \<open>AppendAudit\<close> appends.
\<close>

definition DB_AddModel :: "err option \<Rightarrow> Model \<Rightarrow> db \<Rightarrow> (err + Model) \<times> db" where
  "DB_AddModel fault m d =
     (let m1 = m\<lparr>m_Id := EntityPath_String (m_Path m)\<rparr>;
          d1 = d\<lparr>journal := journal d @ [CallAddModel m1]\<rparr>
      in case fault of
           Some e \<Rightarrow> (Inl e, d1)
         | None \<Rightarrow>
             if list_ex (\<lambda>r. m_Path r = m_Path m) (models d)
             then (Inl (WithCausef None ErrAlreadyExists ''already exists''), d1)
             else (Inr m1, d1\<lparr>models := models d @ [m1]\<rparr>))"

definition DB_DeleteModel :: "err option \<Rightarrow> EntityPath \<Rightarrow> db \<Rightarrow> err option \<times> db" where
  "DB_DeleteModel fault path d =
     (let d1 = d\<lparr>journal := journal d @ [CallDeleteModel path]\<rparr>
      in case fault of
           Some e \<Rightarrow> (Some e, d1)
         | None \<Rightarrow>
             if list_ex (\<lambda>r. m_Path r = path) (models d)
             then (None, d1\<lparr>models := filter (\<lambda>r. m_Path r \<noteq> path) (models d)\<rparr>)
             else (Some (WithCausef None ErrNotFound ''model not found''), d1))"


definition set_life :: "string \<Rightarrow> Model \<Rightarrow> Model" where
  "set_life life r =
     r\<lparr>m_Info := Some (case m_Info r of
          None \<Rightarrow> \<lparr>mi_Life = life, mi_Status = [], mi_Message = [], mi_Since = None,
                    mi_AgentVersion = None\<rparr>
        | Some i \<Rightarrow> i\<lparr>mi_Life := life\<rparr>)\<rparr>"

definition DB_SetModelLife ::
  "err option \<Rightarrow> EntityPath \<Rightarrow> string \<Rightarrow> string \<Rightarrow> db \<Rightarrow> err option \<times> db" where
  "DB_SetModelLife fault ctl uuid life d =
     (let d1 = d\<lparr>journal := journal d @ [CallSetModelLife ctl uuid life]\<rparr>
      in case fault of
           Some e \<Rightarrow> (Some e, d1)
         | None \<Rightarrow>
             (None, d1\<lparr>models :=
                map (\<lambda>r. if m_Controller r = ctl \<and> m_UUID r = uuid then set_life life r else r)
                  (models d)\<rparr>))"

definition DB_AppendAudit :: "err option \<Rightarrow> audit_entry \<Rightarrow> db \<Rightarrow> err option \<times> db" where
  "DB_AppendAudit fault entry d =
     (let d1 = d\<lparr>journal := journal d @ [CallAppendAudit entry]\<rparr>
      in case fault of
           Some e \<Rightarrow> (Some e, d1)
         | None \<Rightarrow> (None, d1\<lparr>audit_log := audit_log d @ [entry]\<rparr>))"



section \<open>JEM.DestroyModel\<close>

text \<open>
  The environment of one call: what the controller answers to the destroy request, whether
  the store fails at the life update or at the audit append, and the current time.
\<close>

record destroy_env =
  de_upstream :: "err option"
  de_life_fault :: "err option"
  de_audit_fault :: "err option"
  de_now :: int

definition DestroyModel :: "destroy_env \<Rightarrow> Model \<Rightarrow> db \<Rightarrow> err option \<times> db" where
  "DestroyModel env model d =
     (case de_upstream env of
        Some err \<Rightarrow> (Mask (Some err) [IsCodeHasPersistentStorage], d)
      | None \<Rightarrow>
          (let (life_err, d1) =
                 DB_SetModelLife (de_life_fault env) (m_Controller model) (m_UUID model) ''dying'' d;
               (audit_err, d2) =
                 DB_AppendAudit (de_audit_fault env)
                   (AuditModelDestroyed (m_Id model) (m_UUID model) (de_now env)) d1
           in (None, d2)))"

section \<open>controllerRoot.modelInfo\<close>










section \<open>allMonitor.startMonitors\<close>

record Controller =
  ctl_Path :: EntityPath
  ctl_UUID :: string
  ctl_Deprecated :: bool
  MonitorLeaseOwner :: string
  MonitorLeaseExpiry :: int







section \<open>Pushing a credential to a controller\<close>

text \<open>
  The environment of one push: whether the API connection opens (asked only when no
  connection is passed in), what the store answers when the credential has to be loaded,
  what the controller answers to the revoke or update request, and whether the store fails
  to clear the pending-update mark afterwards (that failure is only logged).
\<close>

record push_env =
  pe_open :: "err option"
  pe_lookup :: "err + Credential"
  pe_remote :: "Credential \<Rightarrow> err option"
  pe_clear_fault :: "err option"

definition updateControllerCredential ::
  "push_env \<Rightarrow> bool \<Rightarrow> Credential option \<Rightarrow> err option" where
  "updateControllerCredential pe conn_given cred =
     (case (if conn_given then None else Mask (pe_open pe) []) of
        Some err \<Rightarrow> Some err
      | None \<Rightarrow>
          (case (case cred of
                   Some c \<Rightarrow> Inr c
                 | None \<Rightarrow>
                     (case pe_lookup pe of
                        Inl err \<Rightarrow> Inl (NoteMask (Some err) [] [Is ErrNotFound])
                      | Inr c \<Rightarrow> Inr c)) of
             Inl err \<Rightarrow> Some err
           | Inr c \<Rightarrow>
               (case pe_remote pe c of
                  Some err \<Rightarrow> Some (Notef (Some err) ''cannot update credentials'')
                | None \<Rightarrow> None)))"

section \<open>JEM.UpdateCredential\<close>

text \<open>
  After starting one push per controller, \<open>UpdateCredential\<close> waits in
  \<open>for n > 0 { select { case <-ch: n--; case <-ctx.Done(): } }\<close>. Each pass through the
  \<open>select\<close> takes one of its two cases: a push has reported on the channel, or the
  caller's context is done. \<open>wait_for_pushes n evs\<close> tells whether the loop, entered
  with \<open>n\<close> pushes outstanding, has ended after the select outcomes \<open>evs\<close>.
\<close>

datatype select_event = PushDone | CtxDone

fun wait_for_pushes :: "nat \<Rightarrow> select_event list \<Rightarrow> bool" where
  "wait_for_pushes 0 evs = True"
| "wait_for_pushes (Suc n) [] = False"
| "wait_for_pushes (Suc n) (PushDone # evs) = wait_for_pushes n evs"
| "wait_for_pushes (Suc n) (CtxDone # evs) = wait_for_pushes (Suc n) evs"

text \<open>
  The environment of one call: whether the store fails the local update, what it answers
  to the read that follows, whether it fails to mark the controllers, what each push meets
  on its controller, and the select outcomes seen while waiting.
\<close>

record uc_env =
  uc_update_fault :: "err option"
  uc_read :: "err + Credential"
  uc_mark_fault :: "err option"
  uc_push :: "EntityPath \<Rightarrow> push_env"
  uc_select :: "select_event list"

text \<open>
  The result is \<open>None\<close> while the call has not returned, and \<open>Some\<close> of the returned
  error otherwise; with it comes what each push ended with (a failure is only logged).
\<close>

definition UpdateCredential ::
  "uc_env \<Rightarrow> Credential \<Rightarrow> (err option) option \<times> (EntityPath \<times> err option) list" where
  "UpdateCredential env cred =
     (case uc_update_fault env of
        Some err \<Rightarrow> (Some (Some (Notef (Some err) ''cannot update local database'')), [])
      | None \<Rightarrow>
          (case uc_read env of
             Inl err \<Rightarrow> (Some (Mask (Some err) []), [])
           | Inr c \<Rightarrow>
               (let n = length (cred_Controllers c);
                    pushes = map (\<lambda>ctlPath.
                                (ctlPath,
                                 updateControllerCredential (uc_push env ctlPath) False (Some c)))
                              (cred_Controllers c)
                in (if wait_for_pushes n (uc_select env) then Some None else None, pushes))))"

section \<open>JEM.CreateModel\<close>

record CreateModelParams =
  p_Path :: EntityPath
  p_ControllerPath :: EntityPath
  p_Credential :: CredentialPath
  p_Cloud :: string
  p_Region :: string
  p_Attributes :: "(string \<times> string) list"

text \<open>The controller's answer to a successful \<open>CreateModel\<close> request (\<open>base.ModelInfo\<close>).\<close>

record base_ModelInfo =
  b_UUID :: string
  b_Life :: string
  b_Status :: string
  b_StatusInfo :: string
  b_StatusSince :: "int option"
  b_AgentVersion :: "string option"
  b_Cloud :: string
  b_CloudRegion :: string
  b_DefaultSeries :: string
  b_Type :: string
  b_ProviderType :: string

text \<open>
  What one candidate controller answers during a creation attempt: the read-ACL check and
  the lookup of its document, the opening of the API connection, the push of the selected
  credential and the recording of that binding, the remote \<open>CreateModel\<close> and the grant
  of admin access to the gateway's own user.
\<close>

record ctl_env =
  ce_acl :: "err option"
  ce_doc :: "err + Controller"
  ce_open :: "err option"
  ce_push :: push_env
  ce_add_controller :: "err option"
  ce_create :: "err + base_ModelInfo"
  ce_grant :: "err option"

definition JEM_Controller :: "ctl_env \<Rightarrow> err + Controller" where
  "JEM_Controller ce =
     (case ce_acl ce of
        Some err \<Rightarrow> Inl (NoteMask (Some err) [] [Is ErrUnauthorized])
      | None \<Rightarrow>
          (case ce_doc ce of
             Inl err \<Rightarrow> Inl (NoteMask (Some err) [] [Is ErrNotFound])
           | Inr ctl \<Rightarrow> Inr ctl))"

definition createModelOnController ::
  "ctl_env \<Rightarrow> Credential option \<Rightarrow> err + base_ModelInfo" where
  "createModelOnController ce cred =
     (case JEM_Controller ce of
        Inl err \<Rightarrow> Inl (Notef (Some err) ''cannot get controller document'')
      | Inr ctl \<Rightarrow>
          if ctl_Deprecated ctl then Inl (Notef None ''controller deprecated'')
          else
            (case ce_open ce of
               Some err \<Rightarrow> Inl (Notef (Some err) ''cannot connect to controller'')
             | None \<Rightarrow>
                 (case (case cred of
                          None \<Rightarrow> None
                        | Some c \<Rightarrow>
                            (case updateControllerCredential (ce_push ce) True (Some c) of
                               Some err \<Rightarrow> Some (Notef (Some err) ''cannot add credential'')
                             | None \<Rightarrow>
                                 (case ce_add_controller ce of
                                    Some err \<Rightarrow> Some (Notef (Some err) ''cannot add credential'')
                                  | None \<Rightarrow> None))) of
                    Some err \<Rightarrow> Inl err
                  | None \<Rightarrow>
                      (case ce_create ce of
                         Inl err \<Rightarrow>
                           if ErrCode err = CodeAlreadyExists
                             then Inl (Notef (Some err) ''model name in use'')
                           else if ErrCode err = CodeUpgradeInProgress
                             then Inl (Notef (Some err) ''upgrade in progress'')
                           else Inl (WithCausef (Some err) errInvalidModelParams [])
                       | Inr m \<Rightarrow>
                           (case ce_grant ce of
                              Some err \<Rightarrow> Inl (Notef (Some err) ''cannot grant model access'')
                            | None \<Rightarrow> Inr m)))))"

text \<open>
  The loop over the candidates: the first controller that creates the model ends it; an
  error with cause \<open>errInvalidModelParams\<close> ends the whole request; any other error is
  logged and the next candidate is tried. \<open>Inr None\<close> is the loop running out.
\<close>

fun try_controllers ::
  "(EntityPath \<Rightarrow> ctl_env) \<Rightarrow> Credential option \<Rightarrow> EntityPath list
     \<Rightarrow> err + (EntityPath \<times> base_ModelInfo) option" where
  "try_controllers ces cred [] = Inr None"
| "try_controllers ces cred (controller # rest) =
     (case createModelOnController (ces controller) cred of
        Inr created \<Rightarrow> Inr (Some (controller, created))
      | Inl err \<Rightarrow>
          if Cause err = errInvalidModelParams
          then Inl (Notef (Some err) ''cannot create model'')
          else try_controllers ces cred rest)"

text \<open>\<open>fmt.Sprintf("creating-%x", uuid)\<close> on the generator's bytes: two lower-case hex digits each.\<close>

definition hex_digit :: "nat \<Rightarrow> char" where
  "hex_digit n = ''0123456789abcdef'' ! (n mod 16)"

definition hex_byte :: "nat \<Rightarrow> string" where
  "hex_byte b = [hex_digit ((b mod 256) div 16), hex_digit (b mod 16)]"

definition placeholder_uuid :: "nat list \<Rightarrow> string" where
  "placeholder_uuid bytes = ''creating-'' @ concat (map hex_byte bytes)"

text \<open>
  The update that replaces the placeholder with what the controller reported
  (\<open>Models().FindId(id).Apply\<close> with \<open>ReturnNew\<close>): it fails when the store fails or when
  no row has the id, and otherwise yields the updated row.
\<close>

definition reconcile :: "EntityPath \<Rightarrow> base_ModelInfo \<Rightarrow> Model \<Rightarrow> Model" where
  "reconcile ctlPath created r =
     r\<lparr>m_UUID := b_UUID created,
       m_Controller := ctlPath,
       m_Cloud := b_Cloud created,
       m_CloudRegion := b_CloudRegion created,
       m_DefaultSeries := b_DefaultSeries created,
       m_Info := Some \<lparr>mi_Life = b_Life created, mi_Status = b_Status created,
                       mi_Message = b_StatusInfo created, mi_Since = b_StatusSince created,
                       mi_AgentVersion = b_AgentVersion created\<rparr>,
       m_Type := b_Type created,
       m_ProviderType := b_ProviderType created\<rparr>"

definition DB_ApplyModelUpdate ::
  "err option \<Rightarrow> string \<Rightarrow> (Model \<Rightarrow> Model) \<Rightarrow> db \<Rightarrow> (err + Model) \<times> db" where
  "DB_ApplyModelUpdate fault doc_id change d =
     (let d1 = d\<lparr>journal := journal d @ [CallUpdateModel doc_id]\<rparr>
      in case fault of
           Some e \<Rightarrow> (Inl e, d1)
         | None \<Rightarrow>
             (case filter (\<lambda>r. m_Id r = doc_id) (models d) of
                [] \<Rightarrow> (Inl (PlainErr ''not found''), d1)
              | r # rs \<Rightarrow>
                  (Inr (change r),
                   d1\<lparr>models := map (\<lambda>x. if m_Id x = doc_id then change x else x) (models d)\<rparr>)))"

text \<open>The environment of one \<open>CreateModel\<close> request.\<close>

record cm_env =
  cm_is_user :: bool
  cm_usage :: "(err + nat list) option"
  cm_run_query :: "cred_query \<Rightarrow> Credential list \<times> err option"
  cm_CloudRegion :: "string \<Rightarrow> string \<Rightarrow> err + CloudRegion"
  cm_can_read_region :: "CloudRegion \<Rightarrow> bool"
  cm_rnd :: "nat \<Rightarrow> nat"
  cm_now :: int
  cm_username :: string
  cm_uuid_next :: "nat list"
  cm_add_fault :: "err option"
  cm_ctl :: "EntityPath \<Rightarrow> ctl_env"
  cm_apply_fault :: "err option"
  cm_audit_fault :: "err option"
  cm_delete_fault :: "err option"

text \<open>
  Steps up to and including the reservation: the checks, the selection of the credential
  and of the candidates, and the insertion of the row with the placeholder UUID.
\<close>

definition CreateModel_reserve ::
  "cm_env \<Rightarrow> CreateModelParams \<Rightarrow> db
     \<Rightarrow> (err + (Model \<times> Credential option \<times> EntityPath list)) \<times> db" where
  "CreateModel_reserve env p d =
     (case auth_check (cm_is_user env) of
        Some err \<Rightarrow> (Inl (NoteMask (Some err) [] [Is ErrUnauthorized]), d)
      | None \<Rightarrow>
          (case (case cm_usage env of None \<Rightarrow> Inr [] | Some r \<Rightarrow> r) of
             Inl err \<Rightarrow> (Inl (NoteMask (Some err) [] []), d)
           | Inr usageSenderCredentials \<Rightarrow>
               (case selectCredential (cm_run_query env) (p_Credential p)
                       (ep_User (p_Path p)) (p_Cloud p) of
                  Inl err \<Rightarrow>
                    (Inl (NoteMask (Some err) [] [Is ErrNotFound, Is ErrAmbiguousChoice]), d)
                | Inr cred \<Rightarrow>
                    (case possibleControllers (cm_CloudRegion env) (cm_can_read_region env)
                            (cm_rnd env) (p_ControllerPath p) (p_Cloud p) (p_Region p) of
                       Inl err \<Rightarrow>
                         (Inl (NoteMask (Some err) [] [Is ErrNotFound, Is ErrUnauthorized]), d)
                     | Inr controllers \<Rightarrow>
                         (let modelDoc =
                            \<lparr>m_Id = [], m_Path = p_Path p,
                             m_Controller = \<lparr>ep_User = [], ep_Name = []\<rparr>,
                             m_UUID = placeholder_uuid (cm_uuid_next env),
                             m_CreationTime = cm_now env, m_Creator = cm_username env,
                             m_UsageSenderCredentials = usageSenderCredentials,
                             m_Credential =
                               (case cred of
                                  None \<Rightarrow> \<lparr>cp_Cloud = [], cp_User = [], cp_Name = []\<rparr>
                                | Some c \<Rightarrow> cred_Path c),
                             m_Cloud = [], m_CloudRegion = [], m_DefaultSeries = [],
                             m_Type = [], m_ProviderType = [], m_Info = None\<rparr>
                          in case DB_AddModel (cm_add_fault env) modelDoc d of
                               (Inl err, d1) \<Rightarrow>
                                 (Inl (NoteMask (Some err) [] [Is ErrAlreadyExists]), d1)
                             | (Inr doc, d1) \<Rightarrow> (Inr (doc, cred, controllers), d1))))))"

text \<open>The steps after the reservation: the candidates, the reconciliation, the audit entry.\<close>

definition CreateModel_attempt ::
  "cm_env \<Rightarrow> Model \<Rightarrow> Credential option \<Rightarrow> EntityPath list \<Rightarrow> db \<Rightarrow> (err + Model) \<times> db" where
  "CreateModel_attempt env modelDoc cred controllers d =
     (case try_controllers (cm_ctl env) cred controllers of
        Inl err \<Rightarrow> (Inl err, d)
      | Inr None \<Rightarrow> (Inl (Newf ''cannot find suitable controller''), d)
      | Inr (Some (ctlPath, created)) \<Rightarrow>
          if ep_Name ctlPath = [] then (Inl (Newf ''cannot find suitable controller''), d)
          else
            (case DB_ApplyModelUpdate (cm_apply_fault env) (m_Id modelDoc)
                    (reconcile ctlPath created) d of
               (Inl err, d1) \<Rightarrow>
                 (Inl (Notef (Some err)
                         (''cannot update model '' @ b_UUID created @ '' in database'')), d1)
             | (Inr doc, d1) \<Rightarrow>
                 (let (audit_err, d2) =
                    DB_AppendAudit (cm_audit_fault env)
                      (AuditModelCreated (m_Id doc) (b_UUID created) (ep_User (m_Path doc))
                         (m_Creator doc) (EntityPath_String ctlPath) (m_Cloud doc)
                         (m_CloudRegion doc) (cm_now env)) d1
                  in (Inr doc, d2))))"

text \<open>
  The whole request. The function deferred after the reservation runs when the request
  returns: on an error it asks the store to delete the reserved row, and a failure of that
  delete is only logged.
\<close>

definition CreateModel :: "cm_env \<Rightarrow> CreateModelParams \<Rightarrow> db \<Rightarrow> (err + Model) \<times> db" where
  "CreateModel env p d =
     (case CreateModel_reserve env p d of
        (Inl err, d1) \<Rightarrow> (Inl err, d1)
      | (Inr (modelDoc, cred, controllers), d1) \<Rightarrow>
          (case CreateModel_attempt env modelDoc cred controllers d1 of
             (Inl err, d2) \<Rightarrow>
               (let (delete_err, d3) = DB_DeleteModel (cm_delete_fault env) (m_Path modelDoc) d2
                in (Inl err, d3))
           | (Inr doc, d2) \<Rightarrow> (Inr doc, d2)))"

section \<open>Sample data\<close>

text \<open>A controller, a dying model on it and a store holding that model, for concrete runs.\<close>

definition sample_ctl :: EntityPath where
  "sample_ctl = \<lparr>ep_User = ''admin'', ep_Name = ''ctl-a''\<rparr>"

definition sample_model :: Model where
  "sample_model =
     \<lparr>m_Id = ''bob/m1'', m_Path = \<lparr>ep_User = ''bob'', ep_Name = ''m1''\<rparr>,
      m_Controller = sample_ctl, m_UUID = ''uuid-1'', m_CreationTime = 0, m_Creator = ''bob'',
      m_UsageSenderCredentials = [],
      m_Credential = \<lparr>cp_Cloud = ''aws'', cp_User = ''bob'', cp_Name = ''cred1''\<rparr>,
      m_Cloud = ''aws'', m_CloudRegion = ''eu-west-1'', m_DefaultSeries = ''focal'',
      m_Type = ''iaas'', m_ProviderType = ''ec2'',
      m_Info = Some \<lparr>mi_Life = ''dying'', mi_Status = ''destroying'', mi_Message = [],
                      mi_Since = None, mi_AgentVersion = None\<rparr>\<rparr>"

definition sample_db :: db where
  "sample_db = \<lparr>models = [sample_model], audit_log = [], journal = []\<rparr>"













text \<open>
  An update of a credential that is deployed to \<open>ctl-a\<close> only; \<open>evs\<close> are the select
  outcomes seen while waiting for the push.
\<close>

definition sample_cred :: Credential where
  "sample_cred =
     \<lparr>cred_Path = \<lparr>cp_Cloud = ''aws'', cp_User = ''bob'', cp_Name = ''cred1''\<rparr>,
      cred_Type = ''access-key'', cred_Attributes = [(''access-key'', ''k'')],
      cred_Revoked = False, cred_Controllers = [sample_ctl]\<rparr>"

definition sample_uc_env :: "select_event list \<Rightarrow> uc_env" where
  "sample_uc_env evs =
     \<lparr>uc_update_fault = None, uc_read = Inr sample_cred, uc_mark_fault = None,
      uc_push = (\<lambda>c. \<lparr>pe_open = None, pe_lookup = Inr sample_cred, pe_remote = (\<lambda>c. None),
                        pe_clear_fault = None\<rparr>),
      uc_select = evs\<rparr>"

section \<open>Properties of jimmdb.Update\<close>

lemma IsZero_record_op: "\<not> Update_IsZero (record_op x u)"
  by (cases x)
     (auto simp: Update_IsZero_def Update_AddToSet_def Update_Pull_def Update_Set_def
        len_M_def Let_def split: option.splits)

lemma IsZero_record_ops_nonzero:
  "\<not> Update_IsZero u \<Longrightarrow> \<not> Update_IsZero (record_ops xs u)"
  by (induction xs arbitrary: u) (simp_all add: IsZero_record_op)

text \<open>
  C10. A freshly constructed update is zero; one call of \<open>AddToSet\<close>, \<open>Pull\<close> or
  \<open>Set\<close> on any update makes it non-zero; and an update built from a fresh one by a
  chain of such calls is zero exactly when the chain is empty.
\<close>

theorem Update_IsZero_iff_nothing_recorded:
  "Update_IsZero (new_Update :: 'v Update)
   \<and> \<not> Update_IsZero (Update_AddToSet f v (u :: 'v Update))
   \<and> \<not> Update_IsZero (Update_Pull f v u)
   \<and> \<not> Update_IsZero (Update_Set f v u)
   \<and> (Update_IsZero (record_ops xs (new_Update :: 'v Update)) \<longleftrightarrow> xs = [])"
proof -
  have fresh: "Update_IsZero (new_Update :: 'v Update)"
    by (simp add: Update_IsZero_def new_Update_def len_M_def)
  have a: "\<not> Update_IsZero (Update_AddToSet f v u)"
    using IsZero_record_op [of "OpAddToSet f v" u] by simp
  have p: "\<not> Update_IsZero (Update_Pull f v u)"
    using IsZero_record_op [of "OpPull f v" u] by simp
  have s: "\<not> Update_IsZero (Update_Set f v u)"
    using IsZero_record_op [of "OpSet f v" u] by simp
  have chain: "Update_IsZero (record_ops xs (new_Update :: 'v Update)) \<longleftrightarrow> xs = []"
  proof (cases xs)
    case Nil
    then show ?thesis using fresh by simp
  next
    case (Cons x ys)
    then show ?thesis
      using IsZero_record_ops_nonzero [OF IsZero_record_op, of ys x new_Update] by simp
  qed
  from fresh a p s chain show ?thesis by blast
qed

section \<open>Properties of dispatch\<close>

text \<open>
  C5. For every method name and every version below 3, a call on root name \<open>Admin\<close> is
  answered with the NotSupported request error whatever the facade table of the
  connection is (the unauthenticated one, the authenticated one, or any other): the
  heart monitor is notified once, the table is not consulted and nothing is handed on to
  the method finder behind which the login handling lives.
\<close>

theorem FindMethod_old_Admin_NotSupported:
  "version < 3 \<Longrightarrow>
     FindMethod findMethod r ''Admin'' version methodName =
       (Inl (RequestError CodeNotSupported ''JIMM does not support login from old clients''),
        r\<lparr>heartbeats := Suc (heartbeats r)\<rparr>)
     \<and> found (snd (FindMethod findMethod r ''Admin'' version methodName)) = found r"
  by (simp add: FindMethod_def Let_def)

theorem FindMethod_old_Admin_NotSupported_witness:
  "(2::int) < 3
   \<and> FindMethod (\<lambda>rn v m. Inr rn) newControllerRoot ''Admin'' 2 ''Login'' =
       (Inl (RequestError CodeNotSupported ''JIMM does not support login from old clients''),
        newControllerRoot\<lparr>heartbeats := Suc 0\<rparr>)
   \<and> fst (FindMethod (\<lambda>rn v m. Inr rn) (newControllerRoot\<lparr>root_facades := facades\<rparr>)
            ''Admin'' (- 1) ''Login'') =
       Inl (RequestError CodeNotSupported ''JIMM does not support login from old clients'')"
  using FindMethod_old_Admin_NotSupported [of 2 "\<lambda>rn v m. Inr rn" newControllerRoot "''Login''"]
    FindMethod_old_Admin_NotSupported
      [of "- 1" "\<lambda>rn v m. Inr rn" "newControllerRoot\<lparr>root_facades := facades\<rparr>" "''Login''"]
  by (simp add: newControllerRoot_def)

section \<open>Properties of credential lookup and selection\<close>

text \<open>
  C6. When the store reports that no credential row exists for the path (an error whose
  cause is NotFound) and the identity check for the path's user fails, \<open>JEM.Credential\<close>
  returns an error whose cause is Unauthorized, not NotFound. An existing credential that
  the caller may not read gives an error with the same cause.
\<close>

theorem Credential_absent_other_user_Unauthorized:
  assumes "lookup path = Inl e" and "Cause e = ErrNotFound" and "\<not> is_user (cp_User path)"
  shows "(\<exists>e'. JEM_Credential lookup is_user can_read path = Inl e'
              \<and> Cause e' = ErrUnauthorized \<and> Cause e' \<noteq> ErrNotFound)
       \<and> (\<forall>lookup' cred. lookup' path = Inr cred \<and> \<not> can_read cred \<longrightarrow>
            (\<exists>e'. JEM_Credential lookup' is_user can_read path = Inl e'
                 \<and> Cause e' = ErrUnauthorized))"
  using assms
  by (simp add: JEM_Credential_def auth_check_def Let_def NoteMask_def Is_def)

theorem Credential_absent_other_user_Unauthorized_witness:
  "\<exists>e'. JEM_Credential (\<lambda>p. Inl (WithCausef None ErrNotFound ''credential not found''))
           (\<lambda>u. u = ''bob'') (\<lambda>c. True)
           \<lparr>cp_Cloud = ''aws'', cp_User = ''alice'', cp_Name = ''cred1''\<rparr> = Inl e'
         \<and> Cause e' = ErrUnauthorized \<and> Cause e' \<noteq> ErrNotFound"
  using Credential_absent_other_user_Unauthorized
    [of "\<lambda>p. Inl (WithCausef None ErrNotFound ''credential not found'')"
        "\<lparr>cp_Cloud = ''aws'', cp_User = ''alice'', cp_Name = ''cred1''\<rparr>"
        "WithCausef None ErrNotFound ''credential not found''"
        "\<lambda>u. u = ''bob''" "\<lambda>c. True"]
  by (simp add: WithCausef_def)

text \<open>
  C2. The query sent is the one by path when a credential path is given, and the one by
  (owner, cloud) otherwise. When the iteration over its readable matches ends without a
  store error: no match and no path given yields no credential and no error; no match
  for a given path yields an error with cause NotFound; exactly one match is returned;
  more than one match yields an error with cause AmbiguousChoice.
\<close>

theorem selectCredential_four_cases:
  assumes "q = (if CredentialPath_IsZero path then ByUserCloud user cloud else ByPath path)"
    and "run_query q = (creds, None)"
  shows "(creds = [] \<and> CredentialPath_IsZero path \<longrightarrow>
            selectCredential run_query path user cloud = Inr None)
       \<and> (creds = [] \<and> \<not> CredentialPath_IsZero path \<longrightarrow>
            (\<exists>e. selectCredential run_query path user cloud = Inl e \<and> Cause e = ErrNotFound))
       \<and> (\<forall>c. creds = [c] \<longrightarrow> selectCredential run_query path user cloud = Inr (Some c))
       \<and> (1 < length creds \<longrightarrow>
            (\<exists>e. selectCredential run_query path user cloud = Inl e
                 \<and> Cause e = ErrAmbiguousChoice))"
proof -
  have sel: "selectCredential run_query path user cloud =
      (case creds of
         [] \<Rightarrow> (if \<not> CredentialPath_IsZero path
                then Inl (WithCausef None ErrNotFound
                            (''credential '' @ CredentialPath_String path @ '' not found''))
                else Inr None)
       | [c] \<Rightarrow> Inr (Some c)
       | _ \<Rightarrow> Inl (WithCausef None ErrAmbiguousChoice
                     ''more than one possible credential to use''))"
    using assms by (simp add: selectCredential_def Let_def)
  show ?thesis
  proof (cases creds)
    case Nil
    then show ?thesis by (simp add: sel WithCausef_def)
  next
    case (Cons c cs)
    then show ?thesis by (cases cs) (simp_all add: sel WithCausef_def)
  qed
qed

theorem selectCredential_four_cases_witness:
  "(\<exists>e. selectCredential
           (\<lambda>q. case q of
               ByUserCloud u c \<Rightarrow>
                 ([\<lparr>cred_Path = \<lparr>cp_Cloud = c, cp_User = u, cp_Name = ''a''\<rparr>, cred_Type = ''empty'',
                    cred_Attributes = [], cred_Revoked = False, cred_Controllers = []\<rparr>,
                   \<lparr>cred_Path = \<lparr>cp_Cloud = c, cp_User = u, cp_Name = ''b''\<rparr>, cred_Type = ''empty'',
                    cred_Attributes = [], cred_Revoked = False, cred_Controllers = []\<rparr>], None)
             | ByPath p \<Rightarrow> ([], None))
           \<lparr>cp_Cloud = [], cp_User = [], cp_Name = []\<rparr> ''bob'' ''aws'' = Inl e
        \<and> Cause e = ErrAmbiguousChoice)
   \<and> (\<exists>e. selectCredential (\<lambda>q. ([], None))
             \<lparr>cp_Cloud = ''aws'', cp_User = ''bob'', cp_Name = ''a''\<rparr> ''bob'' ''aws'' = Inl e
          \<and> Cause e = ErrNotFound)"
proof -
  let ?c = "\<lambda>n. \<lparr>cred_Path = \<lparr>cp_Cloud = ''aws'', cp_User = ''bob'', cp_Name = n\<rparr>,
                 cred_Type = ''empty'', cred_Attributes = [], cred_Revoked = False,
                 cred_Controllers = []\<rparr>"
  let ?rq = "\<lambda>q. case q of
             ByUserCloud u c \<Rightarrow>
               ([\<lparr>cred_Path = \<lparr>cp_Cloud = c, cp_User = u, cp_Name = ''a''\<rparr>, cred_Type = ''empty'',
                  cred_Attributes = [], cred_Revoked = False, cred_Controllers = []\<rparr>,
                 \<lparr>cred_Path = \<lparr>cp_Cloud = c, cp_User = u, cp_Name = ''b''\<rparr>, cred_Type = ''empty'',
                  cred_Attributes = [], cred_Revoked = False, cred_Controllers = []\<rparr>], None)
           | ByPath p \<Rightarrow> ([], None)"
  have two: "1 < length [?c ''a'', ?c ''b'']" by simp
  have a: "\<exists>e. selectCredential ?rq \<lparr>cp_Cloud = [], cp_User = [], cp_Name = []\<rparr> ''bob'' ''aws''
             = Inl e \<and> Cause e = ErrAmbiguousChoice"
    using selectCredential_four_cases
      [of "ByUserCloud ''bob'' ''aws''" "\<lparr>cp_Cloud = [], cp_User = [], cp_Name = []\<rparr>"
          "''bob''" "''aws''" ?rq "[?c ''a'', ?c ''b'']"] two
    by (simp add: CredentialPath_IsZero_def)
  have b: "\<exists>e. selectCredential (\<lambda>q. ([], None))
             \<lparr>cp_Cloud = ''aws'', cp_User = ''bob'', cp_Name = ''a''\<rparr> ''bob'' ''aws'' = Inl e
          \<and> Cause e = ErrNotFound"
    using selectCredential_four_cases
      [of "ByPath \<lparr>cp_Cloud = ''aws'', cp_User = ''bob'', cp_Name = ''a''\<rparr>"
          "\<lparr>cp_Cloud = ''aws'', cp_User = ''bob'', cp_Name = ''a''\<rparr>"
          "''bob''" "''aws''" "\<lambda>q. ([], None)" "[]"]
    by (simp add: CredentialPath_IsZero_def)
  from a b show ?thesis by blast
qed

section \<open>Properties of controller selection\<close>







section \<open>Properties of model destruction and reaping\<close>

text \<open>
  C9. When the controller answers the destroy request with an error, \<open>DestroyModel\<close>
  returns that error (wrapped, as its underlying error) and sends no write to the store:
  the rows, the audit log and the journal are as before. When the controller accepts the
  request, \<open>DestroyModel\<close> returns nil whether or not the life update and the audit
  append fail; both are sent, and each takes effect when the store does not fail it.
\<close>

theorem DestroyModel_atomic_and_tolerant:
  "(de_upstream env = Some e \<longrightarrow>
      (\<exists>c. fst (DestroyModel env model d) = Some (Err (Some e) c []))
      \<and> snd (DestroyModel env model d) = d)
   \<and> (de_upstream env = None \<longrightarrow>
        fst (DestroyModel env model d) = None
        \<and> journal (snd (DestroyModel env model d)) =
            journal d @ [CallSetModelLife (m_Controller model) (m_UUID model) ''dying'',
                         CallAppendAudit (AuditModelDestroyed (m_Id model) (m_UUID model) (de_now env))]
        \<and> (de_life_fault env = None \<longrightarrow>
             (\<forall>r \<in> set (models (snd (DestroyModel env model d))).
                m_Controller r = m_Controller model \<and> m_UUID r = m_UUID model \<longrightarrow>
                Model_Life r = ''dying''))
        \<and> (de_audit_fault env = None \<longrightarrow>
             audit_log (snd (DestroyModel env model d)) =
               audit_log d @ [AuditModelDestroyed (m_Id model) (m_UUID model) (de_now env)]))"
  by (auto simp: DestroyModel_def Mask_def NoteMask_def DB_SetModelLife_def DB_AppendAudit_def
        Let_def set_life_def Model_Life_def split: option.splits)

theorem DestroyModel_atomic_and_tolerant_witness:
  "(\<exists>c. fst (DestroyModel
              \<lparr>de_upstream = Some (ParamsError ''model not found'' ''gone''), de_life_fault = None,
               de_audit_fault = None, de_now = 7\<rparr> sample_model sample_db)
          = Some (Err (Some (ParamsError ''model not found'' ''gone'')) c []))
   \<and> snd (DestroyModel
            \<lparr>de_upstream = Some (ParamsError ''model not found'' ''gone''), de_life_fault = None,
             de_audit_fault = None, de_now = 7\<rparr> sample_model sample_db) = sample_db
   \<and> fst (DestroyModel
            \<lparr>de_upstream = None, de_life_fault = Some (PlainErr ''EOF''),
             de_audit_fault = Some (PlainErr ''EOF''), de_now = 7\<rparr> sample_model sample_db) = None"
  using DestroyModel_atomic_and_tolerant
      [of "\<lparr>de_upstream = Some (ParamsError ''model not found'' ''gone''), de_life_fault = None,
             de_audit_fault = None, de_now = 7\<rparr>"
          "ParamsError ''model not found'' ''gone''" sample_model sample_db]
    DestroyModel_atomic_and_tolerant
      [of "\<lparr>de_upstream = None, de_life_fault = Some (PlainErr ''EOF''),
             de_audit_fault = Some (PlainErr ''EOF''), de_now = 7\<rparr>"
          "PlainErr ''x''" sample_model sample_db]
  by simp



section \<open>Properties of the lease sweep\<close>





section \<open>Properties of model creation\<close>








section \<open>Properties of credential propagation\<close>

lemma wait_for_pushes_iff:
  "wait_for_pushes n evs \<longleftrightarrow> n \<le> length (filter (\<lambda>ev. ev = PushDone) evs)"
  by (induction n evs rule: wait_for_pushes.induct) simp_all

lemma UpdateCredential_returns_nil_when_all_reported:
  assumes "uc_update_fault env = None" and "uc_read env = Inr c"
  shows "fst (UpdateCredential env cred) =
           (if length (cred_Controllers c) \<le> length (filter (\<lambda>ev. ev = PushDone) (uc_select env))
            then Some None else None)"
  using assms by (simp add: UpdateCredential_def Let_def wait_for_pushes_iff)

text \<open>
  C4, on the code as written. With one push outstanding, the wait does not end however
  often the select finds the caller's context done: the call has not returned after any
  number of such outcomes, and it returns (with a nil error) only when the push reports.
\<close>

theorem UpdateCredential_keeps_waiting_after_cancel:
  "fst (UpdateCredential (sample_uc_env (replicate k CtxDone)) sample_cred) = None
   \<and> fst (UpdateCredential (sample_uc_env (replicate k CtxDone @ [PushDone])) sample_cred)
       = Some None"
  by (simp add: UpdateCredential_def sample_uc_env_def sample_cred_def Let_def
        wait_for_pushes_iff)


end
